theory Spec2Isabelle
  imports Main
begin

section \<open>Strings, dictionaries and time stamps of the Python runtime\<close>

text \<open>
  A Python \<open>str\<close> is a sequence of Unicode code points, so a character is modelled by its
  code point and a string by the list of them. \<open>ascii\<close> reads an ASCII literal of the source;
  code points beyond ASCII are written as numbers (\<open>250\<close> is u with acute accent).
\<close>

type_synonym str = "nat list"

definition ascii :: "string \<Rightarrow> str" where
  "ascii s = map of_char s"

text \<open>
  \<open>str.isspace\<close>: the code points that \<open>str.strip()\<close> without argument removes
  (tab to carriage return, the four separators, space, NEL, no-break space and the
  Unicode space separators).
\<close>

definition isspace :: "nat \<Rightarrow> bool" where
  "isspace c =
     ((9 \<le> c \<and> c \<le> 13) \<or> (28 \<le> c \<and> c \<le> 32) \<or> c = 133 \<or> c = 160 \<or> c = 5760
      \<or> (8192 \<le> c \<and> c \<le> 8202) \<or> c = 8232 \<or> c = 8233 \<or> c = 8239 \<or> c = 8287
      \<or> c = 12288)"

definition strip :: "str \<Rightarrow> str" where
  "strip s = rev (dropWhile isspace (rev (dropWhile isspace s)))"

text \<open>
  \<open>str.lower()\<close>: the model lowers the letters A to Z and leaves every other code point as
  it is. The runtime also lowers letters beyond ASCII, but the lower-case form of none of
  them ends in one of the characters of the four suffixes that \<open>select_file\<close> tests, so
  \<open>endswith\<close> on those suffixes decides the same.
\<close>

definition lower_cp :: "nat \<Rightarrow> nat" where
  "lower_cp c = (if 65 \<le> c \<and> c \<le> 90 then c + 32 else c)"

definition lower :: "str \<Rightarrow> str" where
  "lower s = map lower_cp s"

definition endswith :: "str \<Rightarrow> str \<Rightarrow> bool" where
  "endswith s suffix =
     (length suffix \<le> length s \<and> drop (length s - length suffix) s = suffix)"

text \<open>\<open>s.endswith((a, b, ...))\<close> with a tuple: some member is a suffix.\<close>

definition endswith_any :: "str \<Rightarrow> str list \<Rightarrow> bool" where
  "endswith_any s suffixes = list_ex (endswith s) suffixes"

text \<open>\<open>os.path.basename\<close> (the POSIX one): what follows the last slash.\<close>

definition basename :: "str \<Rightarrow> str" where
  "basename p = rev (takeWhile (\<lambda>c. c \<noteq> 47) (rev p))"

text \<open>A \<open>KeyError\<close> carries the missing key; \<open>d[k]\<close> on a dict raises it.\<close>

datatype error = KeyError str

type_synonym dict = "(str \<times> str) list"

definition getitem :: "dict \<Rightarrow> str \<Rightarrow> error + str" where
  "getitem d k = (case map_of d k of None \<Rightarrow> Inl (KeyError k) | Some v \<Rightarrow> Inr v)"

text \<open>
  \<open>datetime\<close> and the two \<open>strftime\<close> formats of the source. Every field is written
  in decimal and padded with zeros, the year to four digits and the others to two.
\<close>

record datetime =
  year :: nat
  month :: nat
  day :: nat
  hour :: nat
  minute :: nat
  second :: nat

fun decimal :: "nat \<Rightarrow> str" where
  "decimal n = (if n < 10 then [48 + n] else decimal (n div 10) @ [48 + n mod 10])"

declare decimal.simps [simp del]

definition zfill :: "nat \<Rightarrow> str \<Rightarrow> str" where
  "zfill w s = replicate (w - length s) 48 @ s"

definition strftime_HM :: "datetime \<Rightarrow> str" where
  "strftime_HM t = zfill 2 (decimal (hour t)) @ ascii '':'' @ zfill 2 (decimal (minute t))"

definition strftime_YmdHMS :: "datetime \<Rightarrow> str" where
  "strftime_YmdHMS t =
     zfill 4 (decimal (year t)) @ ascii ''-'' @ zfill 2 (decimal (month t)) @ ascii ''-''
     @ zfill 2 (decimal (day t)) @ ascii '' '' @ zfill 2 (decimal (hour t)) @ ascii '':''
     @ zfill 2 (decimal (minute t)) @ ascii '':'' @ zfill 2 (decimal (second t))"

section \<open>The data model\<close>

datatype MessageType = TEXT | IMAGE | FILE | SYSTEM

record Message =
  content :: str
  type :: MessageType
  sender :: str
  timestamp :: datetime
  metadata :: "dict option"

record Theme =
  name :: str
  colors :: dict

text \<open>The class \<open>Themes\<close>: three class attributes, each bound to one \<open>Theme\<close>.\<close>

record Themes =
  DARK :: Theme
  LIGHT :: Theme
  NORD :: Theme

definition Themes_init :: Themes where
  "Themes_init =
     \<lparr>DARK = \<lparr>name = ascii ''Dark'', colors =
        [(ascii ''background'', ascii ''#36393F''),
         (ascii ''secondary'', ascii ''#2F3136''),
         (ascii ''accent'', ascii ''#7289DA''),
         (ascii ''text'', ascii ''#FFFFFF''),
         (ascii ''input'', ascii ''#40444B''),
         (ascii ''hover'', ascii ''#677BC4''),
         (ascii ''pressed'', ascii ''#5B6EAE'')]\<rparr>,
      LIGHT = \<lparr>name = ascii ''Light'', colors =
        [(ascii ''background'', ascii ''#FFFFFF''),
         (ascii ''secondary'', ascii ''#F2F3F5''),
         (ascii ''accent'', ascii ''#5865F2''),
         (ascii ''text'', ascii ''#2E3338''),
         (ascii ''input'', ascii ''#EBEDEF''),
         (ascii ''hover'', ascii ''#4752C4''),
         (ascii ''pressed'', ascii ''#3C45A5'')]\<rparr>,
      NORD = \<lparr>name = ascii ''Nord'', colors =
        [(ascii ''background'', ascii ''#2E3440''),
         (ascii ''secondary'', ascii ''#3B4252''),
         (ascii ''accent'', ascii ''#88C0D0''),
         (ascii ''text'', ascii ''#ECEFF4''),
         (ascii ''input'', ascii ''#434C5E''),
         (ascii ''hover'', ascii ''#81A1C1''),
         (ascii ''pressed'', ascii ''#5E81AC'')]\<rparr>\<rparr>"

section \<open>Rendering one message: \<open>ChatMessageWidget\<close>\<close>

text \<open>
  A style sheet is kept as its declarations (property and value) in the order of the
  source; a label as its text, its word-wrap flag, its style sheet and its pixmap.
  \<open>Scaled p w h\<close> is the image loaded from path \<open>p\<close> and scaled into a \<open>w\<close> by \<open>h\<close> box
  (keeping the aspect ratio, smooth transformation).
\<close>

type_synonym decls = "(str \<times> str) list"

datatype QPixmap = Scaled str nat nat

record QLabel =
  label_text :: str
  wordWrap :: bool
  label_style :: decls
  pixmap :: "QPixmap option"

definition QLabel_init :: "str \<Rightarrow> QLabel" where
  "QLabel_init t = \<lparr>label_text = t, wordWrap = False, label_style = [], pixmap = None\<rparr>"

record ChatMessageWidget =
  message :: Message
  theme :: Theme
  sender_label :: QLabel
  timestamp_label :: QLabel
  content_label :: QLabel
  widget_style :: decls

text \<open>Sequencing of a step that may raise: the first exception ends the computation.\<close>

definition and_then :: "error + 'a \<Rightarrow> ('a \<Rightarrow> error + 'b) \<Rightarrow> error + 'b" where
  "and_then r f = (case r of Inl e \<Rightarrow> Inl e | Inr v \<Rightarrow> f v)"

text \<open>
  The content label of \<open>setup_ui\<close>: the \<open>if\<close>/\<open>elif\<close>/\<open>else\<close> on the message type. The
  last branch is the \<open>else\<close> of the source, taken by every type but \<open>TEXT\<close> and \<open>IMAGE\<close>;
  its text starts with the paperclip (code point 128206) and a space.
\<close>

definition content_widget :: "Message \<Rightarrow> Theme \<Rightarrow> error + QLabel" where
  "content_widget m th =
     (if type m = TEXT then
        and_then (getitem (colors th) (ascii ''text'')) (\<lambda>c.
          Inr ((QLabel_init (content m))
                 \<lparr>wordWrap := True, label_style := [(ascii ''color'', c)]\<rparr>))
      else if type m = IMAGE then
        Inr ((QLabel_init []) \<lparr>pixmap := Some (Scaled (content m) 300 300)\<rparr>)
      else
        and_then (getitem (colors th) (ascii ''accent'')) (\<lambda>c.
          Inr ((QLabel_init ([128206, 32] @ basename (content m)))
                 \<lparr>label_style := [(ascii ''color'', c)]\<rparr>)))"

text \<open>\<open>ChatMessageWidget(message, theme)\<close>: the constructor, which runs \<open>setup_ui\<close>.\<close>

definition ChatMessageWidget_init :: "Message \<Rightarrow> Theme \<Rightarrow> error + ChatMessageWidget" where
  "ChatMessageWidget_init m th =
     and_then (getitem (colors th) (ascii ''accent'')) (\<lambda>a.
     and_then (getitem (colors th) (ascii ''text'')) (\<lambda>t.
     and_then (content_widget m th) (\<lambda>c.
     and_then (getitem (colors th) (ascii ''secondary'')) (\<lambda>b.
       Inr \<lparr>message = m, theme = th,
            sender_label = (QLabel_init (sender m))
              \<lparr>label_style := [(ascii ''color'', a), (ascii ''font-weight'', ascii ''bold'')]\<rparr>,
            timestamp_label = (QLabel_init (strftime_HM (timestamp m)))
              \<lparr>label_style := [(ascii ''color'', t), (ascii ''font-size'', ascii ''10px'')]\<rparr>,
            content_label = c,
            widget_style =
              [(ascii ''background-color'', b), (ascii ''border-radius'', ascii ''10px''),
               (ascii ''padding'', ascii ''10px''), (ascii ''margin'', ascii ''5px'')]\<rparr>))))"

section \<open>The window: \<open>ModernChatWindow\<close>\<close>

text \<open>
  The fields of the window that the handlers read or write, the class \<open>Themes\<close>, and the
  three things the handlers do to their environment: the one-shot timers still to fire,
  the notifications shown by the tray icon (title and body) and the files written.
  \<open>messages_layout\<close> is the box layout of the message area, top to bottom: the stretch
  item that \<open>setup_ui\<close> adds and the message widgets. The contact list with
  \<open>filter_contacts\<close>, the tray icon's visibility and \<open>closeEvent\<close> read and write none of
  these fields and are left out.
\<close>

datatype QLayoutItem = Stretch | Widget ChatMessageWidget

type_synonym stylesheet = "(str \<times> decls) list"

record ModernChatWindow =
  current_theme :: Theme
  messages :: "Message list"
  messages_layout :: "QLayoutItem list"
  message_input :: str
  emoji_panel_visible :: bool
  window_style :: stylesheet
  class_Themes :: Themes
  timers :: nat
  tray_messages :: "(str \<times> str) list"
  files :: "str \<rightharpoonup> str"

text \<open>
  A handler returns the window it leaves behind and the exception it raised, if any:
  what it has assigned before the exception stays assigned.
\<close>

type_synonym outcome = "error option \<times> ModernChatWindow"

text \<open>
  The style sheet of \<open>apply_theme\<close>, rule by rule. The f-string reads the colours in the
  order background, text, input, text, accent, hover, pressed, secondary, input, accent;
  the first missing one raises, so each is looked up where it first occurs.
\<close>

definition theme_stylesheet :: "Theme \<Rightarrow> error + stylesheet" where
  "theme_stylesheet th =
     and_then (getitem (colors th) (ascii ''background'')) (\<lambda>background.
     and_then (getitem (colors th) (ascii ''text'')) (\<lambda>text.
     and_then (getitem (colors th) (ascii ''input'')) (\<lambda>input.
     and_then (getitem (colors th) (ascii ''accent'')) (\<lambda>accent.
     and_then (getitem (colors th) (ascii ''hover'')) (\<lambda>hover.
     and_then (getitem (colors th) (ascii ''pressed'')) (\<lambda>pressed.
     and_then (getitem (colors th) (ascii ''secondary'')) (\<lambda>secondary.
       Inr [(ascii ''QMainWindow, QWidget'',
              [(ascii ''background-color'', background), (ascii ''color'', text)]),
            (ascii ''QLineEdit, QTextEdit'',
              [(ascii ''background-color'', input), (ascii ''border-radius'', ascii ''20px''),
               (ascii ''padding'', ascii ''10px''), (ascii ''color'', text)]),
            (ascii ''QPushButton'',
              [(ascii ''background-color'', accent), (ascii ''border-radius'', ascii ''20px''),
               (ascii ''padding'', ascii ''10px 20px''), (ascii ''color'', ascii ''white''),
               (ascii ''font-weight'', ascii ''bold'')]),
            (ascii ''QPushButton:hover'', [(ascii ''background-color'', hover)]),
            (ascii ''QPushButton:pressed'', [(ascii ''background-color'', pressed)]),
            (ascii ''QListWidget'',
              [(ascii ''background-color'', secondary), (ascii ''border-radius'', ascii ''10px''),
               (ascii ''padding'', ascii ''5px'')]),
            (ascii ''QListWidget::item:hover'', [(ascii ''background-color'', input)]),
            (ascii ''QListWidget::item:selected'', [(ascii ''background-color'', accent)]),
            (ascii ''QScrollArea'', [(ascii ''border'', ascii ''none'')])])))))))"

subsection \<open>\<open>refresh_messages\<close>\<close>

text \<open>
  \<open>while self.messages_layout.count() > 1: item = self.messages_layout.takeAt(0)\<close>:
  items leave the layout from the front until one is left. A widget taken out is deleted
  (\<open>deleteLater\<close>), so the layout holds what the message area still shows.
\<close>

fun take_items :: "QLayoutItem list \<Rightarrow> QLayoutItem list" where
  "take_items (x # y # l) = take_items (y # l)"
| "take_items l = l"

text \<open>\<open>QBoxLayout.insertWidget(index, widget)\<close>: a negative index adds at the end.\<close>

definition insertWidget :: "int \<Rightarrow> ChatMessageWidget \<Rightarrow> QLayoutItem list \<Rightarrow> QLayoutItem list" where
  "insertWidget index w l =
     (if index < 0 then l @ [Widget w] else take (nat index) l @ [Widget w] @ drop (nat index) l)"

text \<open>
  \<open>for message in self.messages\<close>: each widget is built with the current theme and
  inserted at \<open>count() - 1\<close>; an exception of the constructor leaves the loop.
\<close>

fun insert_messages :: "Message list \<Rightarrow> Theme \<Rightarrow> QLayoutItem list \<Rightarrow> error option \<times> QLayoutItem list" where
  "insert_messages [] th l = (None, l)"
| "insert_messages (m # ms) th l =
     (case ChatMessageWidget_init m th of
        Inl e \<Rightarrow> (Some e, l)
      | Inr w \<Rightarrow> insert_messages ms th (insertWidget (int (length l) - 1) w l))"

definition refresh_messages :: "ModernChatWindow \<Rightarrow> outcome" where
  "refresh_messages s =
     (case insert_messages (messages s) (current_theme s) (take_items (messages_layout s)) of
        (exc, l) \<Rightarrow> (exc, s\<lparr>messages_layout := l\<rparr>))"

subsection \<open>The handlers\<close>

definition apply_theme :: "Theme \<Rightarrow> ModernChatWindow \<Rightarrow> outcome" where
  "apply_theme th s =
     (let s1 = s\<lparr>current_theme := th\<rparr> in
      case theme_stylesheet th of
        Inl e \<Rightarrow> (Some e, s1)
      | Inr sheet \<Rightarrow> refresh_messages (s1\<lparr>window_style := sheet\<rparr>))"

definition toggle_emoji_panel :: "ModernChatWindow \<Rightarrow> ModernChatWindow" where
  "toggle_emoji_panel s = s\<lparr>emoji_panel_visible := \<not> emoji_panel_visible s\<rparr>"

text \<open>
  \<open>insertPlainText\<close> puts the text at the cursor of the composer; the cursor belongs to
  the toolkit, so its position \<open>pos\<close> comes with the call.
\<close>

definition insert_emoji :: "str \<Rightarrow> nat \<Rightarrow> ModernChatWindow \<Rightarrow> ModernChatWindow" where
  "insert_emoji emoji pos s =
     s\<lparr>message_input := take pos (message_input s) @ emoji @ drop pos (message_input s)\<rparr>"

definition add_message :: "Message \<Rightarrow> ModernChatWindow \<Rightarrow> outcome" where
  "add_message m s =
     (let s1 = s\<lparr>messages := messages s @ [m]\<rparr> in
      case ChatMessageWidget_init m (current_theme s1) of
        Inl e \<Rightarrow> (Some e, s1)
      | Inr w \<Rightarrow> (None, s1\<lparr>messages_layout := messages_layout s1 @ [Widget w]\<rparr>))"

text \<open>The sender of every message of the user: T, u with acute accent.\<close>

definition Tu :: str where
  "Tu = ascii ''T'' @ [250]"

text \<open>
  \<open>select_file\<close>: \<open>file_path\<close> is what the file dialog returned (empty when cancelled),
  \<open>now\<close> what \<open>datetime.now()\<close> returns.
\<close>

definition select_file :: "str \<Rightarrow> datetime \<Rightarrow> ModernChatWindow \<Rightarrow> outcome" where
  "select_file file_path now s =
     (if file_path \<noteq> [] then
        add_message
          \<lparr>content = file_path,
           type = (if \<not> endswith_any (lower file_path)
                          [ascii ''.png'', ascii ''.jpg'', ascii ''.jpeg'', ascii ''.gif'']
                   then FILE else IMAGE),
           sender = Tu, timestamp = now, metadata = None\<rparr> s
      else (None, s))"

text \<open>
  \<open>send_message\<close>: \<open>QTimer.singleShot(1000, self.simulate_response)\<close> is one more timer
  to fire.
\<close>

definition send_message :: "datetime \<Rightarrow> ModernChatWindow \<Rightarrow> outcome" where
  "send_message now s =
     (let text = strip (message_input s) in
      if text \<noteq> [] then
        (case add_message
                \<lparr>content = text, type = TEXT, sender = Tu, timestamp = now, metadata = None\<rparr> s of
           (Some e, s1) \<Rightarrow> (Some e, s1)
         | (None, s1) \<Rightarrow> (None, s1\<lparr>message_input := [], timers := timers s1 + 1\<rparr>))
      else (None, s))"

text \<open>
  The response table of \<open>simulate_response\<close> (161 and 191 are the inverted exclamation and
  question marks, 237, 225 and 233 the accented i, a and e).
\<close>

definition responses :: "str list" where
  "responses =
     [[161] @ ascii ''Interesante punto de vista!'',
      ascii ''Entiendo lo que dices.'',
      [191] @ ascii ''Podr'' @ [237] @ ascii ''as explicar m'' @ [225] @ ascii ''s sobre eso?'',
      ascii ''Me parece una buena idea.'',
      [191] @ ascii ''Qu'' @ [233] @ ascii '' m'' @ [225] @ ascii ''s piensas al respecto?'']"

text \<open>
  \<open>random.choice(seq)\<close> is \<open>seq[randbelow(len(seq))]\<close>. The random source is an input:
  \<open>r\<close> is the number it draws, and \<open>r mod n\<close> ranges over what \<open>randbelow(n)\<close> can return.
\<close>

definition choice :: "nat \<Rightarrow> 'a list \<Rightarrow> 'a" where
  "choice r seq = seq ! (r mod length seq)"

definition simulate_response :: "nat \<Rightarrow> datetime \<Rightarrow> ModernChatWindow \<Rightarrow> outcome" where
  "simulate_response r now s =
     (let response = choice r responses in
      case add_message
             \<lparr>content = response, type = TEXT, sender = ascii ''Usuario 1'', timestamp = now,
              metadata = None\<rparr> s of
        (Some e, s1) \<Rightarrow> (Some e, s1)
      | (None, s1) \<Rightarrow>
          (None, s1\<lparr>tray_messages := tray_messages s1
                      @ [(ascii ''Nuevo mensaje'', ascii ''Usuario 1: '' @ response)]\<rparr>))"

subsection \<open>\<open>save_chat_history\<close>\<close>

text \<open>
  The file object is the text written so far. The plain-text branch writes one formatted
  string per message (code point 10 is the newline that ends it).
\<close>

fun write_txt :: "Message list \<Rightarrow> str \<Rightarrow> str" where
  "write_txt [] f = f"
| "write_txt (m # ms) f =
     write_txt ms
       (f @ ascii ''['' @ strftime_YmdHMS (timestamp m) @ ascii ''] '' @ sender m @ ascii '': ''
          @ content m @ [10])"

text \<open>The HTML block of one message; the f-string reads secondary, accent and text.\<close>

definition html_block :: "Message \<Rightarrow> Theme \<Rightarrow> error + str" where
  "html_block m th =
     and_then (getitem (colors th) (ascii ''secondary'')) (\<lambda>secondary.
     and_then (getitem (colors th) (ascii ''accent'')) (\<lambda>accent.
     and_then (getitem (colors th) (ascii ''text'')) (\<lambda>text.
       Inr (ascii ''<div style='margin: 10px; padding: 10px; background-color: '' @ secondary
            @ ascii '';'>'' @ ascii ''<strong style='color: '' @ accent @ ascii '';'>''
            @ sender m @ ascii ''</strong> ''
            @ ascii ''<span style='color: #999; font-size: 0.8em;'>''
            @ strftime_YmdHMS (timestamp m) @ ascii ''</span><br>''
            @ ascii ''<span style='color: '' @ text @ ascii '';'>''
            @ content m @ ascii ''</span></div>''))))"

fun write_html :: "Message list \<Rightarrow> Theme \<Rightarrow> str \<Rightarrow> error option \<times> str" where
  "write_html [] th f = (None, f)"
| "write_html (m # ms) th f =
     (case html_block m th of
        Inl e \<Rightarrow> (Some e, f)
      | Inr block \<Rightarrow> write_html ms th (f @ block))"

text \<open>
  \<open>file_path\<close> is what the save dialog returned. The file is opened for writing (created or
  truncated) and closed by the \<open>with\<close> block, also when the body raises. The file system
  is taken to accept the file: \<open>files\<close> records what was written to each path.
\<close>

definition save_chat_history :: "str \<Rightarrow> ModernChatWindow \<Rightarrow> outcome" where
  "save_chat_history file_path s =
     (if file_path = [] then (None, s)
      else if endswith file_path (ascii ''.txt'') then
        (None, s\<lparr>files := (files s)(file_path \<mapsto> write_txt (messages s) [])\<rparr>)
      else
        (case write_html (messages s) (current_theme s)
                (ascii ''<html><body style='font-family: Arial, sans-serif;'>'') of
           (Some e, f) \<Rightarrow> (Some e, s\<lparr>files := (files s)(file_path \<mapsto> f)\<rparr>)
         | (None, f) \<Rightarrow>
             (None, s\<lparr>files := (files s)(file_path \<mapsto> f @ ascii ''</body></html>'')\<rparr>)))"

subsection \<open>\<open>eventFilter\<close>\<close>

datatype KeyboardModifier =
  ShiftModifier | ControlModifier | AltModifier | MetaModifier | KeypadModifier
  | GroupSwitchModifier

text \<open>\<open>Qt.Key_Return\<close> is 0x01000004; the key of the numeric pad, \<open>Qt.Key_Enter\<close>, is 0x01000005.\<close>

definition Key_Return :: nat where
  "Key_Return = 16777220"

datatype QEvent = KeyPress nat "KeyboardModifier set" | OtherEvent

datatype QObject = message_input_widget | other_widget

text \<open>
  The result is what the filter returns, \<open>True\<close> for an event it consumes;
  \<open>super().eventFilter\<close> returns \<open>False\<close>.
\<close>

definition eventFilter :: "QObject \<Rightarrow> QEvent \<Rightarrow> datetime \<Rightarrow> ModernChatWindow \<Rightarrow> (error + bool) \<times> ModernChatWindow" where
  "eventFilter obj event now s =
     (case event of
        KeyPress key modifiers \<Rightarrow>
          if obj = message_input_widget \<and> key = Key_Return \<and> modifiers = {ControlModifier}
          then (case send_message now s of
                  (Some e, s1) \<Rightarrow> (Inl e, s1)
                | (None, s1) \<Rightarrow> (Inr True, s1))
          else (Inr False, s)
      | OtherEvent \<Rightarrow> (Inr False, s))"

section \<open>The program as a transition system\<close>

text \<open>
  \<open>ModernChatWindow()\<close>: the fields as \<open>__init__\<close> and \<open>setup_ui\<close> set them, and then the
  initial theme, which \<open>setup_ui\<close> applies last.
\<close>

definition new_window :: ModernChatWindow where
  "new_window =
     \<lparr>current_theme = DARK Themes_init, messages = [], messages_layout = [Stretch],
      message_input = [], emoji_panel_visible = False, window_style = [],
      class_Themes = Themes_init, timers = 0, tray_messages = [], files = Map.empty\<rparr>"

definition ModernChatWindow_init :: outcome where
  "ModernChatWindow_init = apply_theme (current_theme new_window) new_window"

definition welcome_message :: "datetime \<Rightarrow> Message" where
  "welcome_message now =
     \<lparr>content = [161] @ ascii ''Bienvenido al chat! Este es un mensaje de sistema.'',
      type = SYSTEM, sender = ascii ''Sistema'', timestamp = now, metadata = None\<rparr>"

text \<open>\<open>main()\<close> up to the start of the event loop.\<close>

definition main :: "datetime \<Rightarrow> outcome" where
  "main now =
     (case ModernChatWindow_init of
        (Some e, w) \<Rightarrow> (Some e, w)
      | (None, w) \<Rightarrow> add_message (welcome_message now) w)"

text \<open>The twenty buttons of the emoji panel, by code points.\<close>

definition emojis :: "str list" where
  "emojis =
     [[128512], [128514], [129315], [128522], [128525], [129300], [128526], [128557],
      [128077], [10084, 65039], [127881], [10024], [128293], [128175], [128591], [128079],
      [129309], [128170], [127775], [11088]]"

text \<open>The theme menu of \<open>create_menu\<close>: one action per entry of this list.\<close>

definition menu_themes :: "ModernChatWindow \<Rightarrow> Theme list" where
  "menu_themes s = [DARK (class_Themes s), LIGHT (class_Themes s), NORD (class_Themes s)]"

text \<open>
  What the event loop delivers, with the inputs the toolkit supplies: the edited text of
  the composer, the clock, the path a dialog returned, the index of the button or menu
  entry, the cursor position, the number drawn by the random source.
\<close>

datatype event =
    Edited str
  | SendClicked datetime
  | EmojiButtonClicked
  | EmojiSelected nat nat
  | FileButtonClicked str datetime
  | ThemeTriggered nat
  | SaveTriggered str
  | Filtered QObject QEvent datetime
  | Timeout nat datetime

text \<open>
  One turn of the event loop. An exception that leaves a handler is reported by the
  toolkit and the loop goes on with the window as the handler left it. A \<open>Timeout\<close> is
  delivered only for a timer that was started and has not fired.
\<close>

fun step :: "event \<Rightarrow> ModernChatWindow \<Rightarrow> ModernChatWindow" where
  "step (Edited t) s = s\<lparr>message_input := t\<rparr>"
| "step (SendClicked now) s = snd (send_message now s)"
| "step EmojiButtonClicked s = toggle_emoji_panel s"
| "step (EmojiSelected i pos) s =
     (if i < length emojis then insert_emoji (emojis ! i) pos s else s)"
| "step (FileButtonClicked file_path now) s = snd (select_file file_path now s)"
| "step (ThemeTriggered i) s =
     (if i < length (menu_themes s) then snd (apply_theme (menu_themes s ! i) s) else s)"
| "step (SaveTriggered file_path) s = snd (save_chat_history file_path s)"
| "step (Filtered obj e now) s = snd (eventFilter obj e now s)"
| "step (Timeout r now) s =
     (if timers s = 0 then s else snd (simulate_response r now (s\<lparr>timers := timers s - 1\<rparr>)))"

fun run :: "event list \<Rightarrow> ModernChatWindow \<Rightarrow> ModernChatWindow" where
  "run [] s = s"
| "run (e # es) s = run es (step e s)"

inductive reachable :: "ModernChatWindow \<Rightarrow> bool" where
  reachable_main: "reachable (snd (main now))"
| reachable_step: "reachable s \<Longrightarrow> reachable (step e s)"

section \<open>Notions used in the statements\<close>

text \<open>A theme that has the seven colours the style sheets read.\<close>

definition has_colors :: "Theme \<Rightarrow> bool" where
  "has_colors th =
     list_all (\<lambda>k. map_of (colors th) k \<noteq> None)
       [ascii ''background'', ascii ''text'', ascii ''input'', ascii ''accent'', ascii ''hover'',
        ascii ''pressed'', ascii ''secondary'']"

text \<open>The timeline on the screen: the messages of the widgets in the layout, top to bottom.\<close>

fun item_messages :: "QLayoutItem \<Rightarrow> Message list" where
  "item_messages Stretch = []"
| "item_messages (Widget w) = [message w]"

definition shown_messages :: "ModernChatWindow \<Rightarrow> Message list" where
  "shown_messages s = concat (map item_messages (messages_layout s))"

text \<open>The names of the themes those widgets were built with.\<close>

fun item_theme_names :: "QLayoutItem \<Rightarrow> str list" where
  "item_theme_names Stretch = []"
| "item_theme_names (Widget w) = [name (theme w)]"

definition shown_themes :: "ModernChatWindow \<Rightarrow> str list" where
  "shown_themes s = concat (map item_theme_names (messages_layout s))"

text \<open>
  The colours on the screen: every value of a \<open>color\<close> or \<open>background-color\<close> declaration in
  the style sheet of the window and in the widgets of the message area.
\<close>

definition decl_colors :: "decls \<Rightarrow> str set" where
  "decl_colors d =
     set (map snd (filter (\<lambda>pv. fst pv = ascii ''color'' \<or> fst pv = ascii ''background-color'') d))"

fun item_colors :: "QLayoutItem \<Rightarrow> str set" where
  "item_colors Stretch = {}"
| "item_colors (Widget w) =
     decl_colors (label_style (sender_label w)) \<union> decl_colors (label_style (timestamp_label w))
     \<union> decl_colors (label_style (content_label w)) \<union> decl_colors (widget_style w)"

definition rendered_colors :: "ModernChatWindow \<Rightarrow> str set" where
  "rendered_colors s =
     \<Union> (set (map (\<lambda>rule. decl_colors (snd rule)) (window_style s)))
     \<union> \<Union> (set (map item_colors (messages_layout s)))"

text \<open>
  A path has an extension, compared without regard to case: its last characters are those
  of the extension, each in either case.
\<close>

definition same_letter :: "nat \<Rightarrow> nat \<Rightarrow> bool" where
  "same_letter c d =
     (c = d \<or> (65 \<le> c \<and> c \<le> 90 \<and> d = c + 32) \<or> (65 \<le> d \<and> d \<le> 90 \<and> c = d + 32))"

definition has_extension :: "str \<Rightarrow> str \<Rightarrow> bool" where
  "has_extension path ext =
     (length ext \<le> length path
      \<and> list_all2 same_letter (drop (length path - length ext) path) ext)"

definition image_extensions :: "str list" where
  "image_extensions = [ascii ''.png'', ascii ''.jpg'', ascii ''.jpeg'', ascii ''.gif'']"

text \<open>
  The lines of a text file: a line ends at each newline, and what follows the last
  newline is a line if it is not empty. \<open>cur\<close> is the line being read.
\<close>

fun lines_from :: "str \<Rightarrow> str \<Rightarrow> str list" where
  "lines_from [] cur = (if cur = [] then [] else [cur])"
| "lines_from (c # cs) cur =
     (if c = 10 then cur # lines_from cs [] else lines_from cs (cur @ [c]))"

definition file_lines :: "str \<Rightarrow> str list" where
  "file_lines text = lines_from text []"

text \<open>The newlines inside a string.\<close>

definition newlines :: "str \<Rightarrow> nat" where
  "newlines t = count_list t 10"

text \<open>The line of one message in the plain-text export, as the specification words it.\<close>

definition export_line :: "Message \<Rightarrow> str" where
  "export_line m =
     ascii ''['' @ strftime_YmdHMS (timestamp m) @ ascii ''] '' @ sender m @ ascii '': '' @ content m"

text \<open>A message sent from the composer, and a message of the simulated peer.\<close>

definition is_sent :: "Message \<Rightarrow> bool" where
  "is_sent m = (type m = TEXT \<and> sender m = Tu)"

definition is_reply :: "Message \<Rightarrow> bool" where
  "is_reply m = (sender m = ascii ''Usuario 1'')"

text \<open>
  What holds of the window whenever the event loop is idle: the current theme has its
  colours, the class \<open>Themes\<close> is as the program text defines it, the layout is not empty,
  and every message sent has its reply in the log or its timer still to fire.
\<close>

definition invariant :: "ModernChatWindow \<Rightarrow> bool" where
  "invariant s =
     (has_colors (current_theme s) \<and> class_Themes s = Themes_init \<and> messages_layout s \<noteq> []
      \<and> length (filter is_reply (messages s)) + timers s = length (filter is_sent (messages s)))"

text \<open>A clock reading for the examples.\<close>

definition sample_time :: datetime where
  "sample_time = \<lparr>year = 2024, month = 3, day = 7, hour = 9, minute = 5, second = 0\<rparr>"

section \<open>Basic facts about the handlers\<close>

text \<open>
  For each handler, what it leaves behind in any window (\<open>_result\<close>), and its outcome in a
  window whose theme has its colours (\<open>_ok\<close>), where no style sheet raises.
\<close>

lemma getitem_has: "map_of d k \<noteq> None \<Longrightarrow> getitem d k = Inr (the (map_of d k))"
  by (auto simp: getitem_def)

lemma and_then_Inr [simp]: "and_then (Inr v) f = f v"
  by (simp add: and_then_def)

lemma and_then_Inl [simp]: "and_then (Inl e) f = Inl e"
  by (simp add: and_then_def)

lemma has_colors_widget: "has_colors th \<Longrightarrow> \<exists>w. ChatMessageWidget_init m th = Inr w"
  by (simp add: has_colors_def ChatMessageWidget_init_def content_widget_def getitem_has)

lemma has_colors_stylesheet: "has_colors th \<Longrightarrow> \<exists>sheet. theme_stylesheet th = Inr sheet"
  by (simp add: has_colors_def theme_stylesheet_def getitem_has)

lemma stylesheet_has_colors: "theme_stylesheet th = Inr sheet \<Longrightarrow> has_colors th"
  by (simp add: has_colors_def theme_stylesheet_def getitem_def and_then_def
           split: option.splits sum.splits)

lemma has_colors_builtin:
  "has_colors (DARK Themes_init)" "has_colors (LIGHT Themes_init)" "has_colors (NORD Themes_init)"
  by (simp_all add: has_colors_def Themes_init_def ascii_def)

lemma add_message_ok:
  assumes "has_colors (current_theme s)"
  shows "\<exists>w. ChatMessageWidget_init m (current_theme s) = Inr w \<and> add_message m s
     = (None, s\<lparr>messages := messages s @ [m], messages_layout := messages_layout s @ [Widget w]\<rparr>)"
  using has_colors_widget [OF assms, of m] by (auto simp: add_message_def Let_def)

lemma add_message_result:
  assumes "add_message m s = (x, s')"
  shows "messages s' = messages s @ [m]"
    and "class_Themes s' = class_Themes s"
    and "current_theme s' = current_theme s"
    and "timers s' = timers s"
  using assms by (auto simp: add_message_def Let_def split: sum.splits)

lemma send_message_ok:
  assumes "has_colors (current_theme s)" and "strip (message_input s) \<noteq> []"
  shows "\<exists>w. send_message now s
     = (None, s\<lparr>messages := messages s @ [\<lparr>content = strip (message_input s), type = TEXT,
                    sender = Tu, timestamp = now, metadata = None\<rparr>],
                 messages_layout := messages_layout s @ [Widget w],
                 message_input := [], timers := timers s + 1\<rparr>)"
proof -
  obtain w where "add_message \<lparr>content = strip (message_input s), type = TEXT,
                    sender = Tu, timestamp = now, metadata = None\<rparr> s
     = (None, s\<lparr>messages := messages s @ [\<lparr>content = strip (message_input s), type = TEXT,
                    sender = Tu, timestamp = now, metadata = None\<rparr>],
            messages_layout := messages_layout s @ [Widget w]\<rparr>)"
    using add_message_ok [OF assms(1)] by blast
  with assms(2) show ?thesis by (auto simp: send_message_def Let_def)
qed

lemma send_message_result:
  assumes "send_message now s = (x, s')"
  shows "messages s' = messages s \<or> (\<exists>m. messages s' = messages s @ [m])"
    and "class_Themes s' = class_Themes s"
    and "current_theme s' = current_theme s"
  using assms
  by (auto simp: send_message_def Let_def split: if_splits prod.splits option.splits
           dest: add_message_result)

lemma simulate_response_ok:
  assumes "has_colors (current_theme s)"
  shows "\<exists>w. simulate_response r now s
     = (None, s\<lparr>messages := messages s @ [\<lparr>content = choice r responses, type = TEXT,
                    sender = ascii ''Usuario 1'', timestamp = now, metadata = None\<rparr>],
                 messages_layout := messages_layout s @ [Widget w],
                 tray_messages := tray_messages s
                   @ [(ascii ''Nuevo mensaje'', ascii ''Usuario 1: '' @ choice r responses)]\<rparr>)"
proof -
  obtain w where "add_message \<lparr>content = choice r responses, type = TEXT,
                    sender = ascii ''Usuario 1'', timestamp = now, metadata = None\<rparr> s
     = (None, s\<lparr>messages := messages s @ [\<lparr>content = choice r responses, type = TEXT,
                    sender = ascii ''Usuario 1'', timestamp = now, metadata = None\<rparr>],
            messages_layout := messages_layout s @ [Widget w]\<rparr>)"
    using add_message_ok [OF assms(1)] by blast
  then show ?thesis by (auto simp: simulate_response_def Let_def)
qed

lemma simulate_response_result:
  assumes "simulate_response r now s = (x, s')"
  shows "\<exists>m. messages s' = messages s @ [m]"
    and "class_Themes s' = class_Themes s"
    and "current_theme s' = current_theme s"
  using assms
  by (auto simp: simulate_response_def Let_def split: if_splits prod.splits option.splits
           dest: add_message_result)

lemma select_file_ok:
  assumes "has_colors (current_theme s)" and "file_path \<noteq> []"
  shows "\<exists>w. select_file file_path now s
     = (None, s\<lparr>messages := messages s @ [\<lparr>content = file_path,
                    type = (if \<not> endswith_any (lower file_path)
                          [ascii ''.png'', ascii ''.jpg'', ascii ''.jpeg'', ascii ''.gif'']
                       then FILE else IMAGE),
                    sender = Tu, timestamp = now, metadata = None\<rparr>],
                 messages_layout := messages_layout s @ [Widget w]\<rparr>)"
proof -
  let ?m = "\<lparr>content = file_path,
             type = (if \<not> endswith_any (lower file_path)
                          [ascii ''.png'', ascii ''.jpg'', ascii ''.jpeg'', ascii ''.gif'']
                     then FILE else IMAGE),
             sender = Tu, timestamp = now, metadata = None\<rparr>"
  obtain w where "add_message ?m s
     = (None, s\<lparr>messages := messages s @ [?m], messages_layout := messages_layout s @ [Widget w]\<rparr>)"
    using add_message_ok [OF assms(1), of ?m] by blast
  with assms(2) have "select_file file_path now s
     = (None, s\<lparr>messages := messages s @ [?m], messages_layout := messages_layout s @ [Widget w]\<rparr>)"
    unfolding select_file_def by simp
  then show ?thesis by blast
qed

lemma select_file_result:
  assumes "select_file file_path now s = (x, s')"
  shows "messages s' = messages s \<or> (\<exists>m. messages s' = messages s @ [m])"
    and "class_Themes s' = class_Themes s"
    and "current_theme s' = current_theme s"
  using assms
  by (auto simp: select_file_def split: if_splits dest: add_message_result)

lemma refresh_messages_result:
  assumes "refresh_messages s = (x, s')"
  shows "\<exists>l. s' = s\<lparr>messages_layout := l\<rparr>"
  using assms by (auto simp: refresh_messages_def split: prod.splits)

lemma apply_theme_result:
  assumes "apply_theme th s = (x, s')"
  shows "\<exists>style layout. s' = s\<lparr>current_theme := th, window_style := style, messages_layout := layout\<rparr>"
proof (cases "theme_stylesheet th")
  case (Inl e)
  with assms have "s' = s\<lparr>current_theme := th, window_style := window_style s,
      messages_layout := messages_layout s\<rparr>"
    by (auto simp: apply_theme_def Let_def)
  then show ?thesis by blast
next
  case (Inr sheet)
  with assms have "refresh_messages (s\<lparr>current_theme := th, window_style := sheet\<rparr>) = (x, s')"
    by (simp add: apply_theme_def Let_def)
  from refresh_messages_result [OF this] show ?thesis by auto
qed

lemma save_chat_history_result:
  assumes "save_chat_history file_path s = (x, s')"
  shows "messages s' = messages s"
    and "class_Themes s' = class_Themes s"
    and "current_theme s' = current_theme s"
    and "timers s' = timers s"
    and "messages_layout s' = messages_layout s"
  using assms
  by (auto simp: save_chat_history_def split: if_splits prod.splits option.splits)

lemma eventFilter_result:
  assumes "eventFilter obj e now s = (x, s')"
  shows "s' = s \<or> s' = snd (send_message now s)"
  using assms
  by (auto simp: eventFilter_def split: QEvent.splits if_splits prod.splits option.splits)

subsection \<open>Rebuilding the layout\<close>

text \<open>
  \<open>take_items\<close> keeps the last item of the layout, whatever it is, and each widget is
  inserted before it.
\<close>

lemma take_items_eq: "take_items l = (if l = [] then [] else [last l])"
  by (induction l rule: take_items.induct) simp_all

lemma insertWidget_before_last:
  assumes "l \<noteq> []"
  shows "insertWidget (int (length l) - 1) w l = butlast l @ [Widget w, last l]"
proof -
  from assms have idx: "\<not> int (length l) - 1 < 0" "nat (int (length l) - 1) = length l - 1"
    by (cases l; simp)+
  from assms have l: "l = butlast l @ [last l]" by simp
  have "take (length l - 1) l = butlast l" by (simp add: butlast_conv_take)
  moreover have "drop (length l - 1) l = [last l]"
    by (subst (2) l) simp
  ultimately show ?thesis using idx by (simp add: insertWidget_def)
qed

lemma insert_messages_ok:
  assumes "has_colors th" and "l \<noteq> []"
  shows "insert_messages ms th l
     = (None, butlast l @ map (\<lambda>m. Widget (projr (ChatMessageWidget_init m th))) ms @ [last l])"
  using assms(2)
proof (induction ms arbitrary: l)
  case Nil
  then show ?case by simp
next
  case (Cons m ms)
  obtain w where w: "ChatMessageWidget_init m th = Inr w"
    using has_colors_widget [OF assms(1)] by blast
  let ?l = "butlast l @ [Widget w, last l]"
  have "insert_messages (m # ms) th l = insert_messages ms th ?l"
    using w Cons.prems by (simp add: insertWidget_before_last)
  also have "\<dots> = (None, butlast ?l @ map (\<lambda>m. Widget (projr (ChatMessageWidget_init m th))) ms @ [last ?l])"
    by (rule Cons.IH) simp
  finally show ?case using w by (simp add: butlast_append)
qed

lemma insert_messages_empty:
  assumes "has_colors th"
  shows "insert_messages (m # ms) th []
     = (None, map (\<lambda>m. Widget (projr (ChatMessageWidget_init m th))) ms
              @ [Widget (projr (ChatMessageWidget_init m th))])"
proof -
  obtain w where w: "ChatMessageWidget_init m th = Inr w"
    using has_colors_widget [OF assms] by blast
  then have "insert_messages (m # ms) th [] = insert_messages ms th [Widget w]"
    by (simp add: insertWidget_def)
  with insert_messages_ok [OF assms, of "[Widget w]" ms] w show ?thesis by simp
qed

lemma apply_theme_ok:
  assumes "has_colors th" and "messages_layout s \<noteq> []"
  shows "\<exists>sheet. theme_stylesheet th = Inr sheet \<and> apply_theme th s
     = (None, s\<lparr>current_theme := th, window_style := sheet,
                 messages_layout := map (\<lambda>m. Widget (projr (ChatMessageWidget_init m th))) (messages s)
                    @ [last (messages_layout s)]\<rparr>)"
proof -
  obtain sheet where sheet: "theme_stylesheet th = Inr sheet"
    using has_colors_stylesheet [OF assms(1)] by blast
  have "insert_messages (messages s) th (take_items (messages_layout s))
     = (None, map (\<lambda>m. Widget (projr (ChatMessageWidget_init m th))) (messages s)
                    @ [last (messages_layout s)])"
    using insert_messages_ok [OF assms(1), of "[last (messages_layout s)]" "messages s"] assms(2)
    by (simp add: take_items_eq)
  with sheet show ?thesis
    by (simp add: apply_theme_def refresh_messages_def Let_def)
qed

lemma main_eq:
  "\<exists>sheet w. ChatMessageWidget_init (welcome_message now) (DARK Themes_init) = Inr w
     \<and> main now
     = (None, new_window\<lparr>window_style := sheet, messages := [welcome_message now],
                          messages_layout := [Stretch, Widget w]\<rparr>)"
proof -
  have c: "current_theme new_window = DARK Themes_init"
    and l: "messages_layout new_window = [Stretch]" and m: "messages new_window = []"
    by (simp_all add: new_window_def)
  obtain sheet where i: "ModernChatWindow_init
      = (None, new_window\<lparr>current_theme := DARK Themes_init, window_style := sheet,
                           messages_layout := [Stretch]\<rparr>)"
    using apply_theme_ok [of "DARK Themes_init" new_window] has_colors_builtin(1)
    unfolding ModernChatWindow_init_def c by (auto simp: l m)
  let ?w = "new_window\<lparr>current_theme := DARK Themes_init, window_style := sheet,
                           messages_layout := [Stretch]\<rparr>"
  have "has_colors (current_theme ?w)" by (simp add: has_colors_builtin)
  from add_message_ok [OF this, of "welcome_message now"] obtain w where
    w: "ChatMessageWidget_init (welcome_message now) (DARK Themes_init) = Inr w" and
    a: "add_message (welcome_message now) ?w
       = (None, ?w\<lparr>messages := messages ?w @ [welcome_message now],
                    messages_layout := messages_layout ?w @ [Widget w]\<rparr>)"
    by auto
  have "main now = add_message (welcome_message now) ?w"
    unfolding main_def i by simp
  also note a
  also have "?w\<lparr>messages := messages ?w @ [welcome_message now],
                    messages_layout := messages_layout ?w @ [Widget w]\<rparr>
      = new_window\<lparr>window_style := sheet, messages := [welcome_message now],
                          messages_layout := [Stretch, Widget w]\<rparr>"
    by (simp add: new_window_def)
  finally show ?thesis using w by blast
qed

subsection \<open>The invariant\<close>

lemma Tu_not_peer: "Tu \<noteq> ascii ''Usuario 1''"
  by (simp add: Tu_def ascii_def)

lemma send_message_blank:
  "strip (message_input s) = [] \<Longrightarrow> send_message now s = (None, s)"
  by (simp add: send_message_def)

lemma main_invariant: "invariant (snd (main now))"
proof -
  obtain sheet w where "main now
     = (None, new_window\<lparr>window_style := sheet, messages := [welcome_message now],
                          messages_layout := [Stretch, Widget w]\<rparr>)"
    using main_eq by blast
  then show ?thesis
    by (simp add: invariant_def new_window_def has_colors_builtin welcome_message_def
          is_reply_def is_sent_def ascii_def)
qed

lemma send_message_invariant:
  assumes "invariant s"
  shows "invariant (snd (send_message now s))"
proof (cases "strip (message_input s) = []")
  case True
  with assms show ?thesis by (simp add: send_message_blank)
next
  case False
  from assms have "has_colors (current_theme s)" by (simp add: invariant_def)
  from send_message_ok [OF this False, of now] assms show ?thesis
    by (auto simp: invariant_def is_sent_def is_reply_def Tu_not_peer)
qed

lemma select_file_invariant:
  assumes "invariant s"
  shows "invariant (snd (select_file file_path now s))"
proof (cases "file_path = []")
  case True
  with assms show ?thesis by (simp add: select_file_def)
next
  case False
  from assms have "has_colors (current_theme s)" by (simp add: invariant_def)
  from select_file_ok [OF this False, of now] assms show ?thesis
    by (auto simp: invariant_def is_sent_def is_reply_def Tu_not_peer)
qed

lemma simulate_response_invariant:
  assumes "invariant s" and "0 < timers s"
  shows "invariant (snd (simulate_response r now (s\<lparr>timers := timers s - 1\<rparr>)))"
proof -
  from assms have "has_colors (current_theme (s\<lparr>timers := timers s - 1\<rparr>))"
    by (simp add: invariant_def)
  from simulate_response_ok [OF this, of r now] assms show ?thesis
    by (auto simp: invariant_def is_sent_def is_reply_def Tu_not_peer [symmetric])
qed

lemma apply_theme_invariant:
  assumes "invariant s" and "has_colors th"
  shows "invariant (snd (apply_theme th s))"
proof -
  from assms have "messages_layout s \<noteq> []" by (simp add: invariant_def)
  from apply_theme_ok [OF assms(2) this] assms show ?thesis
    by (auto simp: invariant_def)
qed

lemma menu_themes_has_colors:
  assumes "invariant s" and "i < length (menu_themes s)"
  shows "has_colors (menu_themes s ! i)"
proof -
  from assms(1) have "class_Themes s = Themes_init" by (simp add: invariant_def)
  with assms(2) show ?thesis
    by (auto simp: menu_themes_def has_colors_builtin less_Suc_eq nth_Cons')
qed

lemma step_invariant:
  assumes "invariant s"
  shows "invariant (step e s)"
proof (cases e)
  case (Edited t)
  with assms show ?thesis by (simp add: invariant_def)
next
  case (SendClicked now)
  with assms show ?thesis by (simp add: send_message_invariant)
next
  case EmojiButtonClicked
  with assms show ?thesis by (simp add: invariant_def toggle_emoji_panel_def)
next
  case (EmojiSelected i pos)
  with assms show ?thesis by (simp add: invariant_def insert_emoji_def)
next
  case (FileButtonClicked file_path now)
  with assms show ?thesis by (simp add: select_file_invariant)
next
  case (ThemeTriggered i)
  with assms show ?thesis
    by (simp add: apply_theme_invariant menu_themes_has_colors)
next
  case (SaveTriggered file_path)
  obtain x s' where r: "save_chat_history file_path s = (x, s')"
    by (cases "save_chat_history file_path s")
  from save_chat_history_result [OF r] assms SaveTriggered r show ?thesis
    by (simp add: invariant_def)
next
  case (Filtered obj ev now)
  obtain x s' where r: "eventFilter obj ev now s = (x, s')"
    by (cases "eventFilter obj ev now s")
  from eventFilter_result [OF r] assms Filtered r show ?thesis
    by (auto simp: send_message_invariant)
next
  case (Timeout r now)
  with assms simulate_response_invariant [OF assms, of r now] show ?thesis by auto
qed

lemma reachable_invariant: "reachable s \<Longrightarrow> invariant s"
  by (induction rule: reachable.induct) (simp_all add: main_invariant step_invariant)

lemma main_messages: "messages (snd (main now)) = [welcome_message now]"
  using main_eq [of now] by auto

lemma send_message_no_exception:
  assumes "has_colors (current_theme s)"
  shows "fst (send_message now s) = None"
proof (cases "strip (message_input s) = []")
  case True
  then show ?thesis by (simp add: send_message_blank)
next
  case False
  from send_message_ok [OF assms False, of now] show ?thesis by auto
qed

subsection \<open>Suffixes without regard to case\<close>

lemma lower_eq_same_letter:
  assumes "\<not> (65 \<le> d \<and> d \<le> 90)"
  shows "(lower_cp c = d) = same_letter c d"
  using assms by (auto simp: lower_cp_def same_letter_def)

lemma map_lower_eq:
  assumes "list_all (\<lambda>d. \<not> (65 \<le> d \<and> d \<le> 90)) ext"
  shows "(map lower_cp xs = ext) = list_all2 same_letter xs ext"
  using assms
proof (induction xs arbitrary: ext)
  case Nil
  then show ?case by auto
next
  case (Cons x xs)
  then show ?case
    by (cases ext) (auto simp: lower_eq_same_letter)
qed

lemma endswith_lower:
  assumes "list_all (\<lambda>d. \<not> (65 \<le> d \<and> d \<le> 90)) ext"
  shows "endswith (lower path) ext = has_extension path ext"
  using map_lower_eq [OF assms, of "drop (length path - length ext) path"]
  by (simp add: endswith_def has_extension_def lower_def drop_map)

lemma endswith_any_image:
  "endswith_any (lower path) [ascii ''.png'', ascii ''.jpg'', ascii ''.jpeg'', ascii ''.gif'']
     = list_ex (has_extension path) image_extensions"
proof -
  have "list_all (\<lambda>d. \<not> (65 \<le> d \<and> d \<le> 90)) (ascii ''.png'')"
    "list_all (\<lambda>d. \<not> (65 \<le> d \<and> d \<le> 90)) (ascii ''.jpg'')"
    "list_all (\<lambda>d. \<not> (65 \<le> d \<and> d \<le> 90)) (ascii ''.jpeg'')"
    "list_all (\<lambda>d. \<not> (65 \<le> d \<and> d \<le> 90)) (ascii ''.gif'')"
    by (simp_all add: ascii_def)
  then show ?thesis
    by (simp add: endswith_any_def image_extensions_def endswith_lower)
qed

lemma widget_message_theme:
  assumes "ChatMessageWidget_init m th = Inr w"
  shows "message w = m" and "theme w = th"
  using assms
  by (auto simp: ChatMessageWidget_init_def and_then_def split: sum.splits)

subsection \<open>Runs of the event loop\<close>

lemma step_class_Themes: "class_Themes (step e s) = class_Themes s"
proof (cases e)
  case (SendClicked now)
  obtain x s' where r: "send_message now s = (x, s')" by (cases "send_message now s")
  from send_message_result(2) [OF r] SendClicked r show ?thesis by simp
next
  case (FileButtonClicked file_path now)
  obtain x s' where r: "select_file file_path now s = (x, s')"
    by (cases "select_file file_path now s")
  from select_file_result(2) [OF r] FileButtonClicked r show ?thesis by simp
next
  case (ThemeTriggered i)
  obtain x s' where r: "apply_theme (menu_themes s ! i) s = (x, s')"
    by (cases "apply_theme (menu_themes s ! i) s")
  from apply_theme_result [OF r] ThemeTriggered r show ?thesis by auto
next
  case (SaveTriggered file_path)
  obtain x s' where r: "save_chat_history file_path s = (x, s')"
    by (cases "save_chat_history file_path s")
  from save_chat_history_result(2) [OF r] SaveTriggered r show ?thesis by simp
next
  case (Filtered obj ev now)
  obtain x s' where r: "eventFilter obj ev now s = (x, s')"
    by (cases "eventFilter obj ev now s")
  obtain y s'' where r': "send_message now s = (y, s'')" by (cases "send_message now s")
  from eventFilter_result [OF r] send_message_result(2) [OF r'] Filtered r r' show ?thesis
    by auto
next
  case (Timeout r now)
  obtain x s' where r: "simulate_response r now (s\<lparr>timers := timers s - 1\<rparr>) = (x, s')"
    by (cases "simulate_response r now (s\<lparr>timers := timers s - 1\<rparr>)")
  from simulate_response_result(2) [OF r] Timeout r show ?thesis by simp
qed (simp_all add: toggle_emoji_panel_def insert_emoji_def)

lemma step_messages:
  "messages (step e s) = messages s \<or> (\<exists>m. messages (step e s) = messages s @ [m])"
proof (cases e)
  case (SendClicked now)
  obtain x s' where r: "send_message now s = (x, s')" by (cases "send_message now s")
  from send_message_result(1) [OF r] SendClicked r show ?thesis by simp
next
  case (FileButtonClicked file_path now)
  obtain x s' where r: "select_file file_path now s = (x, s')"
    by (cases "select_file file_path now s")
  from select_file_result(1) [OF r] FileButtonClicked r show ?thesis by simp
next
  case (ThemeTriggered i)
  obtain x s' where r: "apply_theme (menu_themes s ! i) s = (x, s')"
    by (cases "apply_theme (menu_themes s ! i) s")
  from apply_theme_result [OF r] ThemeTriggered r show ?thesis by auto
next
  case (SaveTriggered file_path)
  obtain x s' where r: "save_chat_history file_path s = (x, s')"
    by (cases "save_chat_history file_path s")
  from save_chat_history_result(1) [OF r] SaveTriggered r show ?thesis by simp
next
  case (Filtered obj ev now)
  obtain x s' where r: "eventFilter obj ev now s = (x, s')"
    by (cases "eventFilter obj ev now s")
  obtain y s'' where r': "send_message now s = (y, s'')" by (cases "send_message now s")
  from eventFilter_result [OF r] send_message_result(1) [OF r'] Filtered r r' show ?thesis
    by auto
next
  case (Timeout r now)
  obtain x s' where r: "simulate_response r now (s\<lparr>timers := timers s - 1\<rparr>) = (x, s')"
    by (cases "simulate_response r now (s\<lparr>timers := timers s - 1\<rparr>)")
  from simulate_response_result(1) [OF r] Timeout r show ?thesis by simp
qed (simp_all add: toggle_emoji_panel_def insert_emoji_def)

lemma run_class_Themes: "class_Themes (run es s) = class_Themes s"
  by (induction es arbitrary: s) (simp_all add: step_class_Themes)

lemma run_messages: "\<exists>extra. messages (run es s) = messages s @ extra"
proof (induction es arbitrary: s)
  case Nil
  then show ?case by simp
next
  case (Cons e es)
  obtain extra where "messages (run es (step e s)) = messages (step e s) @ extra"
    using Cons.IH by blast
  with step_messages [of e s] show ?case by auto
qed

lemma reachable_run: "reachable s \<Longrightarrow> reachable (run es s)"
  by (induction es arbitrary: s) (simp_all add: reachable_step)

lemma length_responses: "length responses = 5"
  by (simp add: responses_def)

lemma choice_responses: "choice r responses \<in> set responses"
proof -
  have "r mod length responses < length responses"
    by (simp add: length_responses)
  then show ?thesis
    unfolding choice_def by (rule nth_mem)
qed

lemma main_timers: "timers (snd (main now)) = 0"
  using main_eq [of now] by (auto simp: new_window_def)

subsection \<open>Applying a theme twice\<close>

lemma apply_theme_no_colors:
  assumes "\<not> has_colors th"
  shows "\<exists>e. apply_theme th s = (Some e, s\<lparr>current_theme := th\<rparr>)"
proof (cases "theme_stylesheet th")
  case (Inl e)
  then show ?thesis by (simp add: apply_theme_def)
next
  case (Inr sheet)
  with assms show ?thesis using stylesheet_has_colors by blast
qed

lemma apply_theme_ok_empty:
  assumes "has_colors th" and "messages_layout s = []"
  shows "\<exists>sheet. theme_stylesheet th = Inr sheet \<and> apply_theme th s
     = (None, s\<lparr>current_theme := th, window_style := sheet,
                 messages_layout :=
                   (case messages s of [] \<Rightarrow> []
                    | m # ms \<Rightarrow> map (\<lambda>m. Widget (projr (ChatMessageWidget_init m th))) ms
                        @ [Widget (projr (ChatMessageWidget_init m th))])\<rparr>)"
proof -
  obtain sheet where sheet: "theme_stylesheet th = Inr sheet"
    using has_colors_stylesheet [OF assms(1)] by blast
  have "insert_messages (messages s) th []
     = (None, case messages s of [] \<Rightarrow> []
                    | m # ms \<Rightarrow> map (\<lambda>m. Widget (projr (ChatMessageWidget_init m th))) ms
                        @ [Widget (projr (ChatMessageWidget_init m th))])"
    using insert_messages_empty [OF assms(1)] by (cases "messages s") simp_all
  with sheet assms(2) show ?thesis
    by (simp add: apply_theme_def refresh_messages_def Let_def)
qed

lemma rendered_colors_cong:
  assumes "window_style s = window_style s'"
    and "set (messages_layout s) = set (messages_layout s')"
  shows "rendered_colors s = rendered_colors s'"
  using assms by (simp add: rendered_colors_def)

lemma apply_theme_twice_nonempty:
  assumes "messages_layout s \<noteq> []"
  shows "snd (apply_theme th (snd (apply_theme th s))) = snd (apply_theme th s)"
proof (cases "has_colors th")
  case True
  from apply_theme_ok [OF True assms] obtain sheet where
    sheet: "theme_stylesheet th = Inr sheet" and
    a: "apply_theme th s
     = (None, s\<lparr>current_theme := th, window_style := sheet,
                 messages_layout := map (\<lambda>m. Widget (projr (ChatMessageWidget_init m th))) (messages s)
                    @ [last (messages_layout s)]\<rparr>)"
    by blast
  let ?s1 = "s\<lparr>current_theme := th, window_style := sheet,
                 messages_layout := map (\<lambda>m. Widget (projr (ChatMessageWidget_init m th))) (messages s)
                    @ [last (messages_layout s)]\<rparr>"
  have "messages_layout ?s1 \<noteq> []" by simp
  from apply_theme_ok [OF True this] sheet have "apply_theme th ?s1 = (None, ?s1)"
    by auto
  with a show ?thesis by simp
next
  case False
  from apply_theme_no_colors [OF False, of s]
    apply_theme_no_colors [OF False, of "s\<lparr>current_theme := th\<rparr>"]
  show ?thesis by auto
qed

lemma apply_theme_twice_colors:
  "rendered_colors (snd (apply_theme th (snd (apply_theme th s))))
     = rendered_colors (snd (apply_theme th s))"
proof (cases "messages_layout s = []")
  case False
  then show ?thesis by (simp add: apply_theme_twice_nonempty)
next
  case empty: True
  show ?thesis
  proof (cases "has_colors th")
    case False
    from apply_theme_no_colors [OF False, of s]
      apply_theme_no_colors [OF False, of "s\<lparr>current_theme := th\<rparr>"]
    show ?thesis by auto
  next
    case True
    from apply_theme_ok_empty [OF True empty] obtain sheet where
      sheet: "theme_stylesheet th = Inr sheet" and
      a: "apply_theme th s
       = (None, s\<lparr>current_theme := th, window_style := sheet,
                 messages_layout :=
                   (case messages s of [] \<Rightarrow> []
                    | m # ms \<Rightarrow> map (\<lambda>m. Widget (projr (ChatMessageWidget_init m th))) ms
                        @ [Widget (projr (ChatMessageWidget_init m th))])\<rparr>)"
      by blast
    show ?thesis
    proof (cases "messages s")
      case Nil
      let ?s1 = "s\<lparr>current_theme := th, window_style := sheet, messages_layout := []\<rparr>"
      from a Nil have a1: "apply_theme th s = (None, ?s1)" by simp
      have "messages_layout ?s1 = []" by simp
      from apply_theme_ok_empty [OF True this] sheet Nil have "apply_theme th ?s1 = (None, ?s1)"
        by auto
      with a1 show ?thesis by simp
    next
      case (Cons m ms)
      let ?R = "\<lambda>m. Widget (projr (ChatMessageWidget_init m th))"
      let ?s1 = "s\<lparr>current_theme := th, window_style := sheet,
                    messages_layout := map ?R ms @ [?R m]\<rparr>"
      from a Cons have a1: "apply_theme th s = (None, ?s1)" by simp
      have "messages_layout ?s1 \<noteq> []" by simp
      from apply_theme_ok [OF True this] sheet Cons
      have a2: "apply_theme th ?s1
         = (None, ?s1\<lparr>messages_layout := map ?R (m # ms) @ [?R m]\<rparr>)"
        by auto
      have "rendered_colors (?s1\<lparr>messages_layout := map ?R (m # ms) @ [?R m]\<rparr>)
          = rendered_colors ?s1"
        by (rule rendered_colors_cong) auto
      with a1 a2 show ?thesis by simp
    qed
  qed
qed

lemma apply_theme_messages: "messages (snd (apply_theme th s)) = messages s"
proof -
  obtain x s' where r: "apply_theme th s = (x, s')" by (cases "apply_theme th s")
  from apply_theme_result [OF r] r show ?thesis by auto
qed

lemma main_layout: "messages_layout (snd (main now)) \<noteq> []"
  using main_eq [of now] by auto

subsection \<open>The plain-text export and its lines\<close>

lemma write_txt_eq: "write_txt ms f = f @ concat (map (\<lambda>m. export_line m @ [10]) ms)"
  by (induction ms arbitrary: f) (simp_all add: export_line_def)

lemma lines_from_line:
  assumes "10 \<notin> set a"
  shows "lines_from (a @ 10 # rest) cur = (cur @ a) # lines_from rest []"
  using assms by (induction a arbitrary: cur) auto

lemma lines_from_records:
  assumes "\<forall>x \<in> set xs. 10 \<notin> set (f x)"
  shows "lines_from (concat (map (\<lambda>x. f x @ [10]) xs)) [] = map f xs"
  using assms
proof (induction xs)
  case Nil
  then show ?case by simp
next
  case (Cons x xs)
  then have "10 \<notin> set (f x)" by simp
  from lines_from_line [OF this, of "concat (map (\<lambda>x. f x @ [10]) xs)" "[]"] Cons
  show ?case by simp
qed

lemma decimal_digits: "c \<in> set (decimal n) \<Longrightarrow> 48 \<le> c \<and> c \<le> 57"
proof (induction n rule: decimal.induct)
  case (1 n)
  show ?case
  proof (cases "n < 10")
    case True
    with "1.prems" show ?thesis by (simp add: decimal.simps [of n])
  next
    case False
    have "n mod 10 < 10" by simp
    with False "1.prems" "1.IH" show ?thesis
      by (auto simp: decimal.simps [of n])
  qed
qed

lemma zfill_digits: "c \<in> set (zfill w (decimal n)) \<Longrightarrow> 48 \<le> c \<and> c \<le> 57"
  using decimal_digits by (auto simp: zfill_def)

lemma strftime_YmdHMS_no_newline: "10 \<notin> set (strftime_YmdHMS t)"
  using zfill_digits by (fastforce simp: strftime_YmdHMS_def ascii_def)

lemma export_line_no_newline:
  assumes "10 \<notin> set (sender m)" and "10 \<notin> set (content m)"
  shows "10 \<notin> set (export_line m)"
  using assms strftime_YmdHMS_no_newline [of "timestamp m"]
  by (simp add: export_line_def ascii_def)

lemma length_decimal:
  assumes "n < 10 ^ k" and "0 < k"
  shows "length (decimal n) \<le> k"
  using assms
proof (induction n arbitrary: k rule: decimal.induct)
  case (1 n)
  show ?case
  proof (cases "n < 10")
    case True
    with "1.prems" show ?thesis by (simp add: decimal.simps [of n])
  next
    case False
    with "1.prems" obtain j where k: "k = Suc j" by (cases k) auto
    with False "1.prems" have j: "0 < j" by (cases j) auto
    from "1.prems" k have "n div 10 < 10 ^ j"
      by (simp add: less_mult_imp_div_less mult.commute)
    from "1.IH" [OF False this j] k False show ?thesis
      by (simp add: decimal.simps [of n])
  qed
qed

lemma length_zfill: "length s \<le> w \<Longrightarrow> length (zfill w s) = w"
  by (simp add: zfill_def)

lemma length_strftime_YmdHMS:
  assumes "year t < 10000" and "month t < 100" and "day t < 100"
    and "hour t < 100" and "minute t < 100" and "second t < 100"
  shows "length (strftime_YmdHMS t) = 19"
proof -
  have "length (zfill 4 (decimal (year t))) = 4"
    using length_decimal [of "year t" 4] assms(1) by (simp add: length_zfill)
  moreover have "\<And>n. n < 100 \<Longrightarrow> length (zfill 2 (decimal n)) = 2"
    using length_decimal [of _ 2] by (simp add: length_zfill)
  ultimately show ?thesis
    using assms by (simp add: strftime_YmdHMS_def ascii_def)
qed

lemma save_txt:
  assumes "endswith file_path (ascii ''.txt'')"
  shows "save_chat_history file_path s
     = (None, s\<lparr>files := (files s)(file_path \<mapsto> write_txt (messages s) [])\<rparr>)"
proof -
  from assms have "file_path \<noteq> []" by (auto simp: endswith_def ascii_def)
  with assms show ?thesis by (simp add: save_chat_history_def)
qed

lemma export_line_welcome:
  "export_line (welcome_message sample_time)
     = ascii ''[2024-03-07 09:05:00] Sistema: '' @ [161]
       @ ascii ''Bienvenido al chat! Este es un mensaje de sistema.''"
  by (simp add: export_line_def welcome_message_def sample_time_def strftime_YmdHMS_def
        zfill_def decimal.simps ascii_def)

lemma length_lines_from:
  "length (lines_from (t @ [10]) cur) = Suc (count_list t 10)"
  by (induction t arbitrary: cur) simp_all

lemma length_file_lines_terminated:
  assumes "t = [] \<or> last t = 10"
  shows "length (file_lines t) = newlines t"
proof (cases "t = []")
  case True
  then show ?thesis by (simp add: file_lines_def newlines_def)
next
  case False
  with assms have "t = butlast t @ [10]"
    by (metis append_butlast_last_id)
  then obtain u where u: "t = u @ [10]" ..
  show ?thesis
    unfolding u file_lines_def newlines_def by (simp add: length_lines_from)
qed

lemma records_terminated:
  "concat (map (\<lambda>m. f m @ [10]) ms) = [] \<or> last (concat (map (\<lambda>m. f m @ [10]) ms)) = 10"
  by (induction ms rule: rev_induct) simp_all

lemma newlines_append: "newlines (a @ b) = newlines a + newlines b"
  by (induction a) (simp_all add: newlines_def)

lemma newlines_zero: "10 \<notin> set t \<Longrightarrow> newlines t = 0"
  by (induction t) (auto simp: newlines_def)

lemma newlines_export_line:
  "newlines (export_line m) = newlines (sender m) + newlines (content m)"
proof -
  have "newlines (strftime_YmdHMS (timestamp m)) = 0"
    by (rule newlines_zero) (rule strftime_YmdHMS_no_newline)
  moreover have "newlines (ascii ''['') = 0" "newlines (ascii ''] '') = 0"
    "newlines (ascii '': '') = 0"
    by (simp_all add: newlines_def ascii_def)
  ultimately show ?thesis
    by (simp add: export_line_def newlines_append)
qed

lemma newlines_records:
  "newlines (concat (map (\<lambda>m. export_line m @ [10]) ms))
     = length ms + sum_list (map (\<lambda>m. newlines (sender m) + newlines (content m)) ms)"
proof (induction ms)
  case Nil
  then show ?case by (simp add: newlines_def)
next
  case (Cons m ms)
  have "newlines (10 # t) = Suc (newlines t)" for t
    by (simp add: newlines_def)
  with Cons show ?case
    by (simp add: newlines_append newlines_export_line)
qed

section \<open>Sending a message\<close>

text \<open>
  C1. In every window the running program can be in, Send on a composer text whose
  trimmed form is not empty raises nothing, appends exactly one message to the log (kind
  \<open>TEXT\<close>, the trimmed text as content, sender T, u with acute accent) and clears the
  composer; on a text whose trimmed form is empty it appends nothing.
\<close>

theorem send_appends_trimmed_text:
  assumes "reachable s"
  shows "fst (send_message now s) = None
     \<and> messages (snd (send_message now s))
         = (if strip (message_input s) = [] then messages s
            else messages s @ [\<lparr>content = strip (message_input s), type = TEXT,
                                sender = ascii ''T'' @ [250], timestamp = now, metadata = None\<rparr>])
     \<and> message_input (snd (send_message now s))
         = (if strip (message_input s) = [] then message_input s else [])"
proof (cases "strip (message_input s) = []")
  case True
  then show ?thesis by (simp add: send_message_blank)
next
  case False
  from assms have "has_colors (current_theme s)"
    using reachable_invariant by (simp add: invariant_def)
  from send_message_ok [OF this False, of now] False show ?thesis
    by (auto simp: Tu_def)
qed

theorem send_appends_trimmed_text_witness:
  "reachable (step (Edited (ascii ''  hi there '')) (snd (main sample_time)))
   \<and> messages (snd (send_message sample_time
         (step (Edited (ascii ''  hi there '')) (snd (main sample_time)))))
       = [welcome_message sample_time,
          \<lparr>content = ascii ''hi there'', type = TEXT, sender = [84, 250],
           timestamp = sample_time, metadata = None\<rparr>]
   \<and> message_input (snd (send_message sample_time
         (step (Edited (ascii ''  hi there '')) (snd (main sample_time))))) = []
   \<and> reachable (step (Edited [32, 10]) (snd (main sample_time)))
   \<and> messages (snd (send_message sample_time (step (Edited [32, 10]) (snd (main sample_time)))))
       = [welcome_message sample_time]
   \<and> message_input (snd (send_message sample_time (step (Edited [32, 10]) (snd (main sample_time)))))
       = [32, 10]"
proof -
  have r1: "reachable (step (Edited (ascii ''  hi there '')) (snd (main sample_time)))"
    and r2: "reachable (step (Edited [32, 10]) (snd (main sample_time)))"
    by (intro reachable.intros)+
  have s1: "strip (ascii ''  hi there '') = ascii ''hi there''"
    and s2: "strip [32, 10] = []"
    by (simp_all add: strip_def isspace_def ascii_def)
  show ?thesis
    using send_appends_trimmed_text [OF r1, of sample_time]
      send_appends_trimmed_text [OF r2, of sample_time] r1 r2
    by (simp add: s1 s2 main_messages) (simp add: ascii_def)
qed

text \<open>
  C10. When the trimmed composer text is empty, Send returns the window as it found it:
  the composer keeps its text, no timer is started, and whatever events follow, the
  program goes on as if Send had not been pressed.
\<close>

theorem blank_send_is_noop:
  assumes "strip (message_input s) = []"
  shows "send_message now s = (None, s) \<and> run (SendClicked now # es) s = run es s"
  using assms by (simp add: send_message_def)

theorem blank_send_is_noop_witness:
  "strip (message_input (new_window\<lparr>message_input := [32, 10, 9]\<rparr>)) = []
   \<and> send_message sample_time (new_window\<lparr>message_input := [32, 10, 9]\<rparr>)
       = (None, new_window\<lparr>message_input := [32, 10, 9]\<rparr>)
   \<and> run [SendClicked sample_time, Timeout 0 sample_time] (new_window\<lparr>message_input := [32, 10, 9]\<rparr>)
       = run [Timeout 0 sample_time] (new_window\<lparr>message_input := [32, 10, 9]\<rparr>)"
  using blank_send_is_noop [of "new_window\<lparr>message_input := [32, 10, 9]\<rparr>" sample_time
      "[Timeout 0 sample_time]"]
  by (simp add: strip_def isspace_def)

text \<open>
  C8. A key press of Return with exactly the Control modifier on the composer runs
  \<open>send_message\<close> and is consumed (the filter returns \<open>True\<close>); a key press of Return
  without the Control modifier, on any object, leaves the window as it is and is passed on.
\<close>

theorem control_return_sends:
  assumes "reachable s"
  shows "eventFilter message_input_widget (KeyPress Key_Return {ControlModifier}) now s
           = (Inr True, snd (send_message now s))
     \<and> eventFilter obj (KeyPress Key_Return (modifiers - {ControlModifier})) now s = (Inr False, s)"
proof -
  from assms have "has_colors (current_theme s)"
    using reachable_invariant by (simp add: invariant_def)
  from send_message_no_exception [OF this, of now] have "\<exists>s'. send_message now s = (None, s')"
    by (cases "send_message now s") simp
  moreover have "modifiers - {ControlModifier} \<noteq> {ControlModifier}" by blast
  ultimately show ?thesis by (auto simp: eventFilter_def)
qed

theorem control_return_sends_witness:
  "reachable (step (Edited (ascii ''hola'')) (snd (main sample_time)))
   \<and> eventFilter message_input_widget (KeyPress Key_Return {ControlModifier}) sample_time
         (step (Edited (ascii ''hola'')) (snd (main sample_time)))
       = (Inr True, snd (send_message sample_time (step (Edited (ascii ''hola'')) (snd (main sample_time)))))
   \<and> eventFilter message_input_widget (KeyPress Key_Return {}) sample_time
         (step (Edited (ascii ''hola'')) (snd (main sample_time)))
       = (Inr False, step (Edited (ascii ''hola'')) (snd (main sample_time)))"
proof -
  have r: "reachable (step (Edited (ascii ''hola'')) (snd (main sample_time)))"
    by (intro reachable.intros)
  show ?thesis
    using control_return_sends [OF r, of sample_time message_input_widget "{}"] r by simp
qed

section \<open>Attaching a file\<close>

text \<open>
  C4. \<open>select_file\<close> with a path that is not empty appends one message whose kind is
  \<open>IMAGE\<close> exactly when the path has one of the extensions .png, .jpg, .jpeg, .gif, compared
  without regard to case, and \<open>FILE\<close> otherwise; with the empty path of a cancelled dialog
  it appends nothing.
\<close>

theorem attached_file_kind:
  "messages (snd (select_file file_path now s))
     = (if file_path = [] then messages s
        else messages s @ [\<lparr>content = file_path,
                            type = (if list_ex (has_extension file_path) image_extensions
                                    then IMAGE else FILE),
                            sender = Tu, timestamp = now, metadata = None\<rparr>])"
proof (cases "file_path = []")
  case True
  then show ?thesis by (simp add: select_file_def)
next
  case False
  obtain x s' where r: "add_message \<lparr>content = file_path,
           type = (if \<not> endswith_any (lower file_path)
                          [ascii ''.png'', ascii ''.jpg'', ascii ''.jpeg'', ascii ''.gif'']
                   then FILE else IMAGE),
           sender = Tu, timestamp = now, metadata = None\<rparr> s = (x, s')"
    by (cases "add_message \<lparr>content = file_path,
           type = (if \<not> endswith_any (lower file_path)
                          [ascii ''.png'', ascii ''.jpg'', ascii ''.jpeg'', ascii ''.gif'']
                   then FILE else IMAGE),
           sender = Tu, timestamp = now, metadata = None\<rparr> s")
  from add_message_result(1) [OF r] r False show ?thesis
    by (simp add: select_file_def endswith_any_image)
qed

theorem attached_file_kind_witness:
  "map type (messages (snd (select_file (ascii ''photo.PNG'') sample_time new_window))) = [IMAGE]
   \<and> map type (messages (snd (select_file (ascii ''notes.txt'') sample_time new_window))) = [FILE]
   \<and> map type (messages (snd (select_file (ascii ''png'') sample_time new_window))) = [FILE]
   \<and> messages (snd (select_file [] sample_time new_window)) = []"
  using attached_file_kind [of "ascii ''photo.PNG''" sample_time new_window]
    attached_file_kind [of "ascii ''notes.txt''" sample_time new_window]
    attached_file_kind [of "ascii ''png''" sample_time new_window]
    attached_file_kind [of "[]" sample_time new_window]
  by (simp add: new_window_def image_extensions_def has_extension_def same_letter_def ascii_def)

section \<open>Rendering\<close>

text \<open>
  C2. The claim is that a message of kind \<open>SYSTEM\<close> is rendered like one of kind \<open>TEXT\<close>.
  The content label of the welcome message of \<open>main\<close>, of kind \<open>SYSTEM\<close>, under the dark
  theme: the \<open>else\<close> branch gives it the paperclip, the base name of its content and the
  accent colour, without word wrap, which is the label of a \<open>FILE\<close> message and not the
  word-wrapped label in the text colour that the same message gets with kind \<open>TEXT\<close>.
\<close>

theorem system_message_rendered_as_file:
  "content_widget (welcome_message sample_time) (DARK Themes_init)
     = Inr \<lparr>label_text = [128206, 32, 161]
                 @ ascii ''Bienvenido al chat! Este es un mensaje de sistema.'',
            wordWrap = False, label_style = [(ascii ''color'', ascii ''#7289DA'')],
            pixmap = None\<rparr>
   \<and> content_widget ((welcome_message sample_time)\<lparr>type := TEXT\<rparr>) (DARK Themes_init)
     = Inr \<lparr>label_text = [161] @ ascii ''Bienvenido al chat! Este es un mensaje de sistema.'',
            wordWrap = True, label_style = [(ascii ''color'', ascii ''#FFFFFF'')],
            pixmap = None\<rparr>
   \<and> content_widget ((welcome_message sample_time)\<lparr>type := FILE\<rparr>) (DARK Themes_init)
     = content_widget (welcome_message sample_time) (DARK Themes_init)"
  by (simp add: content_widget_def welcome_message_def Themes_init_def getitem_def
        and_then_def basename_def QLabel_init_def ascii_def)

text \<open>
  C7. The claim is that the log is append-only and that the timeline on the screen shows
  the log in its order. After \<open>main\<close> and one choice of the Light theme in the menu, the
  log still holds the welcome message once, but the layout holds two widgets for it: the
  rebuilt one, and the one built under the dark theme, which \<open>take_items\<close> leaves in the
  layout because the stretch item is the first item and not the last.
\<close>

theorem theme_switch_leaves_stale_widget:
  "messages (step (ThemeTriggered 1) (snd (main sample_time))) = [welcome_message sample_time]
   \<and> shown_messages (step (ThemeTriggered 1) (snd (main sample_time)))
       = [welcome_message sample_time, welcome_message sample_time]
   \<and> name (current_theme (step (ThemeTriggered 1) (snd (main sample_time)))) = ascii ''Light''
   \<and> shown_themes (step (ThemeTriggered 1) (snd (main sample_time)))
       = [ascii ''Light'', ascii ''Dark'']"
proof -
  obtain sheet w where w: "ChatMessageWidget_init (welcome_message sample_time) (DARK Themes_init) = Inr w"
    and m: "main sample_time
     = (None, new_window\<lparr>window_style := sheet, messages := [welcome_message sample_time],
                          messages_layout := [Stretch, Widget w]\<rparr>)"
    using main_eq [of sample_time] by blast
  let ?s = "new_window\<lparr>window_style := sheet, messages := [welcome_message sample_time],
                          messages_layout := [Stretch, Widget w]\<rparr>"
  obtain w' where w': "ChatMessageWidget_init (welcome_message sample_time) (LIGHT Themes_init) = Inr w'"
    using has_colors_widget [OF has_colors_builtin(2)] by blast
  have "messages_layout ?s \<noteq> []" by simp
  from apply_theme_ok [OF has_colors_builtin(2) this] obtain sheet' where
    a: "apply_theme (LIGHT Themes_init) ?s
     = (None, ?s\<lparr>current_theme := LIGHT Themes_init, window_style := sheet',
                 messages_layout := map (\<lambda>m. Widget (projr (ChatMessageWidget_init m (LIGHT Themes_init))))
                    (messages ?s) @ [last (messages_layout ?s)]\<rparr>)"
    by blast
  have menu: "menu_themes ?s ! 1 = LIGHT Themes_init" "1 < length (menu_themes ?s)"
    by (simp_all add: menu_themes_def new_window_def)
  have "step (ThemeTriggered 1) (snd (main sample_time))
     = ?s\<lparr>current_theme := LIGHT Themes_init, window_style := sheet',
           messages_layout := [Widget w', Widget w]\<rparr>"
    unfolding m using a menu w' by simp
  then show ?thesis
    using widget_message_theme [OF w] widget_message_theme [OF w']
    by (simp add: shown_messages_def shown_themes_def Themes_init_def)
qed

section \<open>The simulated reply\<close>

text \<open>
  C5. After a Send that appends its message, one more timer is to fire. In every window the
  program reaches afterwards, each sent message has its reply in the log or its timer
  still to fire, the sent message is still where it was appended, and a firing of the timer
  (\<open>simulate_response\<close>, which a \<open>Timeout\<close> runs for a timer that is to fire) raises nothing
  and appends exactly one message at the end of the log, behind the sent message: its
  content is an entry of the response table, which has five entries, and its sender is
  Usuario 1.
\<close>

theorem auto_reply_once:
  assumes "reachable s" and "strip (message_input s) \<noteq> []"
  shows "timers (snd (send_message now s)) = timers s + 1
     \<and> messages (snd (send_message now s))
         = messages s @ [\<lparr>content = strip (message_input s), type = TEXT, sender = Tu,
                            timestamp = now, metadata = None\<rparr>]
     \<and> length (filter is_reply (messages (run es (snd (send_message now s)))))
           + timers (run es (snd (send_message now s)))
         = length (filter is_sent (messages (run es (snd (send_message now s)))))
     \<and> (\<exists>extra. messages (run es (snd (send_message now s)))
           = messages s @ [\<lparr>content = strip (message_input s), type = TEXT, sender = Tu,
                              timestamp = now, metadata = None\<rparr>] @ extra
         \<and> messages (snd (simulate_response r now' (run es (snd (send_message now s)))))
           = messages s @ [\<lparr>content = strip (message_input s), type = TEXT, sender = Tu,
                              timestamp = now, metadata = None\<rparr>] @ extra
              @ [\<lparr>content = choice r responses, type = TEXT, sender = ascii ''Usuario 1'',
                   timestamp = now', metadata = None\<rparr>])
     \<and> fst (simulate_response r now' (run es (snd (send_message now s)))) = None
     \<and> step (Timeout r now') (run es (snd (send_message now s)))
         = (if timers (run es (snd (send_message now s))) = 0
            then run es (snd (send_message now s))
            else snd (simulate_response r now' ((run es (snd (send_message now s)))
                   \<lparr>timers := timers (run es (snd (send_message now s))) - 1\<rparr>)))
     \<and> timers (snd (simulate_response r now' (run es (snd (send_message now s)))))
         = timers (run es (snd (send_message now s)))
     \<and> choice r responses \<in> set responses \<and> length responses = 5"
proof -
  let ?sent = "\<lparr>content = strip (message_input s), type = TEXT, sender = Tu,
                  timestamp = now, metadata = None\<rparr>"
  let ?s1 = "snd (send_message now s)"
  let ?s2 = "run es ?s1"
  from assms(1) have "has_colors (current_theme s)"
    using reachable_invariant by (simp add: invariant_def)
  from send_message_ok [OF this assms(2), of now]
  have t: "timers ?s1 = timers s + 1" and m1: "messages ?s1 = messages s @ [?sent]"
    by auto
  have "reachable (step (SendClicked now) s)" using assms(1) by (rule reachable_step)
  then have "reachable ?s1" by simp
  then have r2: "reachable ?s2" by (rule reachable_run)
  then have inv: "invariant ?s2" by (rule reachable_invariant)
  then have c: "has_colors (current_theme ?s2)" by (simp add: invariant_def)
  obtain extra where m2: "messages ?s2 = messages s @ [?sent] @ extra"
    using run_messages [of es ?s1] m1 by auto
  from simulate_response_ok [OF c, of r now'] obtain w where
    sim: "simulate_response r now' ?s2
     = (None, ?s2\<lparr>messages := messages ?s2 @ [\<lparr>content = choice r responses, type = TEXT,
                    sender = ascii ''Usuario 1'', timestamp = now', metadata = None\<rparr>],
                 messages_layout := messages_layout ?s2 @ [Widget w],
                 tray_messages := tray_messages ?s2
                   @ [(ascii ''Nuevo mensaje'', ascii ''Usuario 1: '' @ choice r responses)]\<rparr>)"
    by blast
  have f: "fst (simulate_response r now' ?s2) = None"
    and tt: "timers (snd (simulate_response r now' ?s2)) = timers ?s2"
    and m3: "messages (snd (simulate_response r now' ?s2))
           = messages s @ [?sent] @ extra
              @ [\<lparr>content = choice r responses, type = TEXT, sender = ascii ''Usuario 1'',
                   timestamp = now', metadata = None\<rparr>]"
    by (simp_all add: sim m2)
  from m2 m3 have "\<exists>extra. messages ?s2 = messages s @ [?sent] @ extra
         \<and> messages (snd (simulate_response r now' ?s2))
           = messages s @ [?sent] @ extra
              @ [\<lparr>content = choice r responses, type = TEXT, sender = ascii ''Usuario 1'',
                   timestamp = now', metadata = None\<rparr>]"
    by blast
  moreover from inv have "length (filter is_reply (messages ?s2)) + timers ?s2
         = length (filter is_sent (messages ?s2))"
    by (simp add: invariant_def)
  moreover have "step (Timeout r now') ?s2
         = (if timers ?s2 = 0 then ?s2
            else snd (simulate_response r now' (?s2\<lparr>timers := timers ?s2 - 1\<rparr>)))"
    by simp
  ultimately show ?thesis
    using t m1 f tt choice_responses length_responses by blast
qed

theorem auto_reply_once_witness:
  "reachable (step (Edited (ascii ''hola'')) (snd (main sample_time)))
   \<and> strip (message_input (step (Edited (ascii ''hola'')) (snd (main sample_time)))) \<noteq> []
   \<and> timers (snd (send_message sample_time
         (step (Edited (ascii ''hola'')) (snd (main sample_time))))) = 1
   \<and> messages (snd (simulate_response 7 sample_time (snd (send_message sample_time
         (step (Edited (ascii ''hola'')) (snd (main sample_time)))))))
       = [welcome_message sample_time,
          \<lparr>content = ascii ''hola'', type = TEXT, sender = Tu, timestamp = sample_time,
           metadata = None\<rparr>,
          \<lparr>content = responses ! 2, type = TEXT, sender = ascii ''Usuario 1'',
           timestamp = sample_time, metadata = None\<rparr>]"
proof -
  let ?s = "step (Edited (ascii ''hola'')) (snd (main sample_time))"
  have r: "reachable ?s" by (intro reachable.intros)
  have s: "strip (ascii ''hola'') = ascii ''hola''"
    by (simp add: strip_def isspace_def ascii_def)
  then have n: "strip (message_input ?s) \<noteq> []" by (simp add: ascii_def)
  have c: "choice 7 responses = responses ! 2"
    by (simp add: choice_def length_responses)
  from auto_reply_once [OF r n, of sample_time "[]" 7 sample_time] r n show ?thesis
    by (auto simp: s c main_messages main_timers)
qed

section \<open>Themes\<close>

text \<open>
  C9. No turn of the event loop changes the class \<open>Themes\<close>: in every window the program
  reaches, its three themes have the names and the seven colours of the program text.
  \<open>apply_theme\<close> assigns the theme it is given to \<open>current_theme\<close> and changes nothing
  else but the style sheet of the window and the layout of the message area.
\<close>

theorem themes_never_mutated:
  "class_Themes (step e s) = class_Themes s
   \<and> class_Themes (run es (snd (main now))) = Themes_init
   \<and> (\<exists>style layout. snd (apply_theme th s)
         = s\<lparr>current_theme := th, window_style := style, messages_layout := layout\<rparr>)
   \<and> map name [DARK Themes_init, LIGHT Themes_init, NORD Themes_init]
       = [ascii ''Dark'', ascii ''Light'', ascii ''Nord'']
   \<and> map length (map colors [DARK Themes_init, LIGHT Themes_init, NORD Themes_init]) = [7, 7, 7]"
proof -
  have "class_Themes (snd (main now)) = Themes_init"
    using main_eq [of now] by (auto simp: new_window_def)
  then have "class_Themes (run es (snd (main now))) = Themes_init"
    by (simp add: run_class_Themes)
  moreover obtain x s' where r: "apply_theme th s = (x, s')" by (cases "apply_theme th s")
  from apply_theme_result [OF r] r
  have "\<exists>style layout. snd (apply_theme th s)
         = s\<lparr>current_theme := th, window_style := style, messages_layout := layout\<rparr>"
    by simp
  ultimately show ?thesis
    by (simp add: step_class_Themes) (simp add: Themes_init_def)
qed

theorem themes_never_mutated_witness:
  "class_Themes (step (ThemeTriggered 2) new_window) = Themes_init
   \<and> class_Themes (run [ThemeTriggered 1, SendClicked sample_time, ThemeTriggered 0]
        (snd (main sample_time))) = Themes_init
   \<and> current_theme (snd (apply_theme (NORD Themes_init) new_window)) = NORD Themes_init
   \<and> messages (snd (apply_theme (NORD Themes_init) new_window)) = []"
proof -
  have "class_Themes new_window = Themes_init" "messages new_window = []"
    by (simp_all add: new_window_def)
  with themes_never_mutated [of "ThemeTriggered 2" new_window
      "[ThemeTriggered 1, SendClicked sample_time, ThemeTriggered 0]" sample_time
      "NORD Themes_init"]
  show ?thesis by auto
qed


text \<open>
  C6. For every theme and every window, applying the theme a second time leaves the
  colours on the screen as the first application left them, and applying a theme leaves the
  log as it was. When the layout is not empty, as in every window the program reaches,
  the second application changes nothing at all.
\<close>

theorem apply_theme_idempotent:
  "rendered_colors (snd (apply_theme th (snd (apply_theme th s))))
     = rendered_colors (snd (apply_theme th s))
   \<and> messages (snd (apply_theme th s)) = messages s
   \<and> (messages_layout s \<noteq> []
        \<longrightarrow> snd (apply_theme th (snd (apply_theme th s))) = snd (apply_theme th s))"
  by (simp add: apply_theme_twice_colors apply_theme_messages apply_theme_twice_nonempty)

theorem apply_theme_idempotent_witness:
  "messages_layout (snd (main sample_time)) \<noteq> []
   \<and> snd (apply_theme (LIGHT Themes_init)
          (snd (apply_theme (LIGHT Themes_init) (snd (main sample_time)))))
       = snd (apply_theme (LIGHT Themes_init) (snd (main sample_time)))
   \<and> rendered_colors (snd (apply_theme (LIGHT Themes_init)
          (snd (apply_theme (LIGHT Themes_init) (snd (main sample_time))))))
       = rendered_colors (snd (apply_theme (LIGHT Themes_init) (snd (main sample_time))))
   \<and> messages (snd (apply_theme (LIGHT Themes_init) (snd (main sample_time))))
       = [welcome_message sample_time]"
  using apply_theme_idempotent [of "LIGHT Themes_init" "snd (main sample_time)"]
    main_layout [of sample_time]
  by (simp add: main_messages)


section \<open>Exporting the history\<close>

text \<open>
  C3, as amended. Saving to a path that ends in \<open>.txt\<close> writes, in the order of the log,
  one record per message: the time stamp in brackets, the sender, a colon, the content,
  and a newline. The file has as many lines as the log has messages, and one more for
  every newline inside a sender or a content. When no sender and no content of the log
  holds a newline, the lines of the file are these records, one line for each message and
  in the same order.
\<close>

theorem export_txt_lines:
  assumes "endswith file_path (ascii ''.txt'')"
  shows "files (snd (save_chat_history file_path s)) file_path
         = Some (concat (map (\<lambda>m. export_line m @ [10]) (messages s)))
     \<and> length (file_lines (concat (map (\<lambda>m. export_line m @ [10]) (messages s))))
         = length (messages s)
           + sum_list (map (\<lambda>m. newlines (sender m) + newlines (content m)) (messages s))
     \<and> ((\<forall>m \<in> set (messages s). 10 \<notin> set (sender m) \<and> 10 \<notin> set (content m))
          \<longrightarrow> file_lines (concat (map (\<lambda>m. export_line m @ [10]) (messages s)))
                = map export_line (messages s))"
proof -
  have "file_lines (concat (map (\<lambda>m. export_line m @ [10]) (messages s)))
          = map export_line (messages s)"
    if "\<forall>m \<in> set (messages s). 10 \<notin> set (sender m) \<and> 10 \<notin> set (content m)"
  proof -
    from that have "\<forall>m \<in> set (messages s). 10 \<notin> set (export_line m)"
      by (simp add: export_line_no_newline)
    then show ?thesis
      unfolding file_lines_def by (rule lines_from_records)
  qed
  moreover have "length (file_lines (concat (map (\<lambda>m. export_line m @ [10]) (messages s))))
         = length (messages s)
           + sum_list (map (\<lambda>m. newlines (sender m) + newlines (content m)) (messages s))"
    using length_file_lines_terminated [OF records_terminated, of export_line "messages s"]
    by (simp only: newlines_records)
  ultimately show ?thesis
    by (simp add: save_txt [OF assms] write_txt_eq)
qed

theorem export_txt_lines_witness:
  "endswith (ascii ''chat.txt'') (ascii ''.txt'')
   \<and> files (snd (save_chat_history (ascii ''chat.txt'') (snd (main sample_time)))) (ascii ''chat.txt'')
       = Some (ascii ''[2024-03-07 09:05:00] Sistema: '' @ [161]
               @ ascii ''Bienvenido al chat! Este es un mensaje de sistema.'' @ [10])
   \<and> length (file_lines (ascii ''[2024-03-07 09:05:00] Sistema: '' @ [161]
               @ ascii ''Bienvenido al chat! Este es un mensaje de sistema.'' @ [10])) = 1
   \<and> file_lines (ascii ''[2024-03-07 09:05:00] Sistema: '' @ [161]
               @ ascii ''Bienvenido al chat! Este es un mensaje de sistema.'' @ [10])
       = [ascii ''[2024-03-07 09:05:00] Sistema: '' @ [161]
               @ ascii ''Bienvenido al chat! Este es un mensaje de sistema.'']"
proof -
  have e: "endswith (ascii ''chat.txt'') (ascii ''.txt'')"
    by (simp add: endswith_def ascii_def)
  have n: "10 \<notin> set (sender (welcome_message sample_time))"
    "10 \<notin> set (content (welcome_message sample_time))"
    by (simp_all add: welcome_message_def ascii_def)
  then have z: "newlines (sender (welcome_message sample_time)) = 0"
    "newlines (content (welcome_message sample_time)) = 0"
    by (simp_all add: newlines_zero)
  from export_txt_lines [OF e, of "snd (main sample_time)"] n z e show ?thesis
    by (simp add: main_messages export_line_welcome)
qed

text \<open>
  C3 as stated fails: the composer holds several lines and Send keeps the newlines inside
  the text. After \<open>main\<close>, the text a, newline, b is sent and the history saved: the log has
  two messages and the file three lines.
\<close>

theorem export_txt_line_count_counterexample:
  "map_option (length \<circ> file_lines)
      (files (run [Edited (ascii ''a'' @ 10 # ascii ''b''), SendClicked sample_time,
                   SaveTriggered (ascii ''chat.txt'')] (snd (main sample_time)))
         (ascii ''chat.txt'')) = Some 3
   \<and> length (messages (run [Edited (ascii ''a'' @ 10 # ascii ''b''), SendClicked sample_time,
                   SaveTriggered (ascii ''chat.txt'')] (snd (main sample_time)))) = 2"
proof -
  let ?s1 = "step (Edited (ascii ''a'' @ 10 # ascii ''b'')) (snd (main sample_time))"
  let ?sent = "\<lparr>content = ascii ''a'' @ 10 # ascii ''b'', type = TEXT, sender = Tu,
                 timestamp = sample_time, metadata = None\<rparr>"
  have "reachable ?s1" by (intro reachable.intros)
  then have "invariant ?s1" by (rule reachable_invariant)
  then have c: "has_colors (current_theme ?s1)"
    unfolding invariant_def by (rule conjunct1)
  have s: "strip (ascii ''a'' @ 10 # ascii ''b'') = ascii ''a'' @ 10 # ascii ''b''"
    by (simp add: strip_def isspace_def ascii_def)
  then have "strip (message_input ?s1) \<noteq> []" by (simp add: ascii_def)
  from send_message_ok [OF c this, of sample_time]
  have m: "messages (snd (send_message sample_time ?s1)) = [welcome_message sample_time, ?sent]"
    by (auto simp: s main_messages)
  have e: "endswith (ascii ''chat.txt'') (ascii ''.txt'')"
    by (simp add: endswith_def ascii_def)
  let ?segments = "[export_line (welcome_message sample_time),
      ascii ''['' @ strftime_YmdHMS sample_time @ ascii ''] '' @ Tu @ ascii '': '' @ ascii ''a'',
      ascii ''b'']"
  have w: "write_txt [welcome_message sample_time, ?sent] []
      = concat (map (\<lambda>x. x @ [10]) ?segments)"
    by (simp add: write_txt_eq export_line_def)
  have "10 \<notin> set (export_line (welcome_message sample_time))"
    by (rule export_line_no_newline) (simp_all add: welcome_message_def ascii_def)
  then have "\<forall>x \<in> set ?segments. 10 \<notin> set x"
    using strftime_YmdHMS_no_newline [of sample_time] by (simp add: Tu_def ascii_def)
  then have "lines_from (concat (map (\<lambda>x. x @ [10]) ?segments)) [] = map (\<lambda>x. x) ?segments"
    by (rule lines_from_records)
  then have l: "length (file_lines (write_txt [welcome_message sample_time, ?sent] [])) = 3"
    unfolding w file_lines_def by simp
  from m l show ?thesis
    by (simp add: save_txt [OF e] del: write_txt.simps)
qed

end
